theory Spec2Isabelle
  imports Main
begin

section \<open>Text primitives used by the wrapper\<close>

text \<open>
  Python text is modelled as \<open>string\<close>; a \<open>char\<close> stands for a code point below 256.
  The line boundaries of \<^verbatim>\<open>str.splitlines\<close> in that range are LF, VT, FF, CR, FS, GS, RS
  and NEL, and CR LF counts as one boundary. A final boundary does not open an empty
  last line.
\<close>

definition is_linebreak :: "char \<Rightarrow> bool" where
  "is_linebreak c \<longleftrightarrow>
     c \<in> set [CHR 0x0A, CHR 0x0B, CHR 0x0C, CHR 0x0D, CHR 0x1C, CHR 0x1D, CHR 0x1E, CHR 0x85]"

fun splitlines_from :: "string \<Rightarrow> string \<Rightarrow> string list" where
  "splitlines_from cur [] = (if cur = [] then [] else [rev cur])"
| "splitlines_from cur (c # s) =
     (if c = CHR 0x0D then
        (case s of
           [] \<Rightarrow> [rev cur]
         | d # t \<Rightarrow> if d = CHR 0x0A then rev cur # splitlines_from [] t
                    else rev cur # splitlines_from [] (d # t))
      else if is_linebreak c then rev cur # splitlines_from [] s
      else splitlines_from (c # cur) s)"

definition splitlines :: "string \<Rightarrow> string list" where
  "splitlines txt = splitlines_from [] txt"

text \<open>
  \<^verbatim>\<open>str.split()\<close> without arguments: the maximal runs of non-whitespace characters.
\<close>

definition is_space :: "char \<Rightarrow> bool" where
  "is_space c \<longleftrightarrow>
     c \<in> set [CHR 0x09, CHR 0x0A, CHR 0x0B, CHR 0x0C, CHR 0x0D, CHR 0x1C, CHR 0x1D, CHR 0x1E,
              CHR 0x1F, CHR 0x20, CHR 0x85, CHR 0xA0]"

fun split_from :: "string \<Rightarrow> string \<Rightarrow> string list" where
  "split_from cur [] = (if cur = [] then [] else [rev cur])"
| "split_from cur (c # s) =
     (if is_space c then (if cur = [] then split_from [] s else rev cur # split_from [] s)
      else split_from (c # cur) s)"

definition split_ws :: "string \<Rightarrow> string list" where
  "split_ws txt = split_from [] txt"

text \<open>\<^verbatim>\<open>sep.join(parts)\<close>.\<close>

fun join :: "string \<Rightarrow> string list \<Rightarrow> string" where
  "join sep [] = []"
| "join sep [x] = x"
| "join sep (x # y # ys) = x @ sep @ join sep (y # ys)"

text \<open>
  Python's \<^verbatim>\<open>xs[:e]\<close>: a negative bound counts from the end, and \<^verbatim>\<open>xs[:-0]\<close> is
  \<^verbatim>\<open>xs[:0]\<close>.
\<close>

definition slice_to :: "'a list \<Rightarrow> int \<Rightarrow> 'a list" where
  "slice_to xs e = (if e < 0 then take (nat (int (length xs) + e)) xs else take (nat e) xs)"

section \<open>Regular expression search\<close>

text \<open>
  \<^verbatim>\<open>re.search(pattern, line)\<close> for the pattern syntax that occurs in \<open>SKIP_MATCH\<close>:
  literal characters, a leading \<^verbatim>\<open>^\<close> (start of the string, no MULTILINE flag), the dot
  (any character but LF) and \<^verbatim>\<open>.*\<close>. \<open>match_here p s\<close> holds when \<open>p\<close> matches a
  prefix of \<open>s\<close>.
\<close>

definition dot_or_lit :: "char \<Rightarrow> char \<Rightarrow> bool" where
  "dot_or_lit c x = (if c = CHR ''.'' then x \<noteq> CHR 0x0A else x = c)"

fun match_here :: "string \<Rightarrow> string \<Rightarrow> bool" where
  "match_here [] s = True"
| "match_here [c] [] = False"
| "match_here [c] (x # t) = dot_or_lit c x"
| "match_here (c # d # p) [] = (c = CHR ''.'' \<and> d = CHR ''*'' \<and> match_here p [])"
| "match_here (c # d # p) (x # t) =
     (if c = CHR ''.'' \<and> d = CHR ''*''
      then match_here p (x # t) \<or> (x \<noteq> CHR 0x0A \<and> match_here (c # d # p) t)
      else dot_or_lit c x \<and> match_here (d # p) t)"

fun search_from :: "string \<Rightarrow> string \<Rightarrow> bool" where
  "search_from p [] = match_here p []"
| "search_from p (x # t) = (match_here p (x # t) \<or> search_from p t)"

definition re_search :: "string \<Rightarrow> string \<Rightarrow> bool" where
  "re_search pat s =
     (case pat of
        [] \<Rightarrow> True
      | c # p \<Rightarrow> if c = CHR ''^'' then match_here p s else search_from pat s)"

section \<open>Log comparator\<close>

definition SKIP_MATCH :: "string list" where
  "SKIP_MATCH =
     [''BOLT-INFO: BOLT version'',
      ''^Args: '',
      ''^BOLT-DEBUG:'',
      ''BOLT-INFO:.*data.*output data'',
      ''WARNING: reading perf data directly'']"

text \<open>
  The inner \<^verbatim>\<open>for skip in SKIP_MATCH\<close> loop: \<open>True\<close> when the loop leaves through
  \<^verbatim>\<open>break\<close>, \<open>False\<close> when it runs into its \<^verbatim>\<open>else\<close> branch.
\<close>

fun skip_loop :: "string list \<Rightarrow> string \<Rightarrow> string \<Rightarrow> bool" where
  "skip_loop [] lhs rhs = False"
| "skip_loop (skip # rest) lhs rhs =
     (if re_search skip lhs \<and> re_search skip rhs then True else skip_loop rest lhs rhs)"

text \<open>The outer loop over the line pairs.\<close>

fun compare_pairs :: "(string \<times> string) list \<Rightarrow> (string \<times> string) option" where
  "compare_pairs [] = None"
| "compare_pairs ((lhs, rhs) # ps) =
     (if lhs \<noteq> rhs then
        (if skip_loop SKIP_MATCH lhs rhs then compare_pairs ps else Some (lhs, rhs))
      else compare_pairs ps)"

definition compare_logs :: "string \<Rightarrow> string \<Rightarrow> int \<Rightarrow> (string \<times> string) option" where
  "compare_logs main_txt cmp_txt skip_end =
     compare_pairs (slice_to (zip (splitlines main_txt) (splitlines cmp_txt)) (- skip_end))"

definition fmt_cmp :: "(string \<times> string) option \<Rightarrow> string" where
  "fmt_cmp cmp_tuple =
     (case cmp_tuple of
        None \<Rightarrow> []
      | Some (l, r) \<Rightarrow> ''main:'' @ [CHR 0x0A] @ l @ [CHR 0x0A] @ ''cmp:'' @ [CHR 0x0A] @ r @ [CHR 0x0A])"

section \<open>Byte offset reported by cmp\<close>

datatype py_error = ValueError | IndexError | AttributeError | OSError | CalledProcessError

definition is_digit :: "char \<Rightarrow> bool" where
  "is_digit c \<longleftrightarrow> c \<in> set ''0123456789''"

text \<open>\<^verbatim>\<open>int(digits)\<close> on a string of decimal digits (Python integers are unbounded).\<close>

definition int_of_digits :: "string \<Rightarrow> int" where
  "int_of_digits ds = foldl (\<lambda>acc c. 10 * acc + (of_char c - 48)) 0 ds"

fun strip_prefix :: "string \<Rightarrow> string \<Rightarrow> string option" where
  "strip_prefix [] s = Some s"
| "strip_prefix (p # ps) [] = None"
| "strip_prefix (p # ps) (c # s) = (if p = c then strip_prefix ps s else None)"

text \<open>
  The pattern \<^verbatim>\<open>byte (\d+),\<close> tried at the start of \<open>s\<close>: the literal, then as many
  digits as there are (at least one), then a comma. The result is group 1.
\<close>

definition match_byte_at :: "string \<Rightarrow> string option" where
  "match_byte_at s =
     (case strip_prefix ''byte '' s of
        None \<Rightarrow> None
      | Some r \<Rightarrow>
          (case dropWhile is_digit r of
             [] \<Rightarrow> None
           | c # _ \<Rightarrow> if takeWhile is_digit r \<noteq> [] \<and> c = CHR '','' then Some (takeWhile is_digit r)
                      else None))"

text \<open>\<^verbatim>\<open>re.search\<close> tries the start positions from left to right.\<close>

fun search_byte :: "string \<Rightarrow> string option" where
  "search_byte [] = match_byte_at []"
| "search_byte (c # s) =
     (case match_byte_at (c # s) of Some ds \<Rightarrow> Some ds | None \<Rightarrow> search_byte s)"

text \<open>
  \<^verbatim>\<open>re.search\<close> returns \<^verbatim>\<open>None\<close> when nothing matches, and \<^verbatim>\<open>None.groups()\<close> raises
  AttributeError.
\<close>

definition parse_cmp_offset :: "string \<Rightarrow> py_error + int" where
  "parse_cmp_offset cmp_out =
     (case search_byte cmp_out of
        None \<Rightarrow> Inl AttributeError
      | Some ds \<Rightarrow> Inr (int_of_digits ds))"

section \<open>Argument translator\<close>

text \<open>\<^verbatim>\<open>os.path.basename\<close> and \<^verbatim>\<open>os.path.join\<close> of two components (POSIX).\<close>

definition basename :: "string \<Rightarrow> string" where
  "basename p = rev (takeWhile (\<lambda>c. c \<noteq> CHR ''/'') (rev p))"

definition path_join :: "string \<Rightarrow> string \<Rightarrow> string" where
  "path_join a b =
     (if b \<noteq> [] \<and> hd b = CHR ''/'' then b
      else if a = [] \<or> last a = CHR ''/'' then a @ b
      else a @ ''/'' @ b)"

text \<open>
  The namespace that \<^verbatim>\<open>parse_known_args\<close> returns is the list of its attributes in
  the order of \<open>BOLT_OUTPUT_OPTS\<close>; an option that was not given has the value
  \<^verbatim>\<open>None\<close>. A dict is an association list in insertion order.
\<close>

definition preprocess_args :: "(string \<times> string option) list \<Rightarrow> (string \<times> string) list" where
  "preprocess_args ns =
     concat (map (\<lambda>(key, v). case v of None \<Rightarrow> [] | Some x \<Rightarrow> if x = [] then [] else [(key, x)]) ns)"

definition prepend_dash :: "(string \<times> string) list \<Rightarrow> string list" where
  "prepend_dash args = concat (map (\<lambda>(key, v). [''-'' @ key, v]) args)"

definition replace_cmp_path :: "string \<Rightarrow> (string \<times> string) list \<Rightarrow> string list" where
  "replace_cmp_path tmp args =
     prepend_dash (map (\<lambda>(key, v). (key, path_join tmp (basename v))) args)"

text \<open>\<^verbatim>\<open>xs.index(x)\<close> raises ValueError, \<^verbatim>\<open>xs[i]\<close> raises IndexError.\<close>

fun index_of :: "'a list \<Rightarrow> 'a \<Rightarrow> py_error + nat" where
  "index_of [] x = Inl ValueError"
| "index_of (y # ys) x =
     (if y = x then Inr 0
      else case index_of ys x of Inl e \<Rightarrow> Inl e | Inr i \<Rightarrow> Inr (Suc i))"

definition item_at :: "'a list \<Rightarrow> nat \<Rightarrow> py_error + 'a" where
  "item_at xs i = (if i < length xs then Inr (xs ! i) else Inl IndexError)"

text \<open>\<^verbatim>\<open>xs[xs.index('-o') + 1]\<close>.\<close>

definition output_path :: "string list \<Rightarrow> py_error + string" where
  "output_path xs =
     (case index_of xs ''-o'' of Inl e \<Rightarrow> Inl e | Inr i \<Rightarrow> item_at xs (i + 1))"

section \<open>Configuration, environment and effects\<close>

record config =
  BASE_BOLT :: string
  CMP_BOLT :: string
  VERBOSE :: bool
  KEEP_TMP :: bool
  NO_MINIMIZE :: bool
  RUN_SEQUENTIALLY :: bool
  COMPARE_OUTPUT :: bool
  SKIP_BINARY_CMP :: bool
  TIMING_FILE :: string

definition PERF2BOLT_MODE :: "string list" where
  "PERF2BOLT_MODE = [''-aggregate-only'']"

definition MINIMIZE_DIFFS :: "string list" where
  "MINIMIZE_DIFFS = [''-bolt-info=0'']"

text \<open>What a finished child process leaves: its two captured streams and its status.\<close>

record proc_result =
  p_stdout :: string
  p_stderr :: string
  returncode :: int

text \<open>
  Everything the wrapper reads from outside: its own name, the namespace and the
  remaining arguments that \<^verbatim>\<open>parse_known_args\<close> returns, the directory that
  \<^verbatim>\<open>mkdtemp\<close> creates, the results of the two runs once awaited, what \<^verbatim>\<open>cmp\<close> and
  \<^verbatim>\<open>readelf -We\<close> return, and the bytes of the files (\<open>None\<close>: the file cannot be
  opened).
\<close>

record env =
  argv0 :: string
  parsed_o :: "string option"
  parsed_w :: "string option"
  unknownargs :: "string list"
  tmpdir :: string
  base_run :: proc_result
  cmp_run :: proc_result
  cmp_tool :: "string \<Rightarrow> string \<Rightarrow> proc_result"
  readelf_tool :: "string \<Rightarrow> proc_result"
  files :: "string \<Rightarrow> string option"

datatype stream = Stdout | Stderr

datatype file_mode = Mode_w | Mode_a

text \<open>
  The effects of a run, in order. \<open>Print txt s\<close> is \<^verbatim>\<open>print(txt, file=s)\<close>;
  \<open>Write_file path txt mode\<close> is \<^verbatim>\<open>write_to(txt, path, mode)\<close>.
\<close>

datatype event =
    Mkdtemp string
  | Print_cmd "string list"
  | Popen "string list"
  | Communicate "string list"
  | Print string stream
  | Print_int int
  | Write_file string string file_mode
  | Run_cmp string string
  | Open_rb string
  | Run_readelf string
  | Rmtree string

text \<open>
  How the interpreter stops: \<^verbatim>\<open>exit(message)\<close>, \<^verbatim>\<open>sys.exit(code)\<close>, or an exception
  that nothing catches.
\<close>

datatype outcome = Exit_msg string | Exit_code int | Uncaught py_error

text \<open>
  The status the caller sees: 1 after a message or a traceback, the low eight bits
  of the code otherwise.
\<close>

fun exit_status :: "outcome \<Rightarrow> int" where
  "exit_status (Exit_msg m) = 1"
| "exit_status (Exit_code n) = n mod 256"
| "exit_status (Uncaught e) = 1"

definition after :: "event list \<Rightarrow> event list \<times> outcome \<Rightarrow> event list \<times> outcome" where
  "after es r = (es @ fst r, snd r)"

text \<open>The temporary workspace is still on disk when no step removed it.\<close>

definition workspace_retained :: "env \<Rightarrow> event list \<times> outcome \<Rightarrow> bool" where
  "workspace_retained e r \<longleftrightarrow> Rmtree (tmpdir e) \<notin> set (fst r)"

section \<open>Process runner\<close>

text \<open>
  \<open>run_cmd\<close> echoes the command when \<open>VERBOSE\<close> is set and starts it;
  \<open>bolt_cmd\<close> is the command that \<open>run_bolt\<close> builds. The started process is
  identified by its command: \<open>Communicate cmd\<close> is \<^verbatim>\<open>wait\<close> on that process,
  which returns what the process wrote, also when the timeout kills it.
\<close>

definition run_cmd :: "config \<Rightarrow> string list \<Rightarrow> event list" where
  "run_cmd cfg cmd = (if VERBOSE cfg then [Print_cmd cmd] else []) @ [Popen cmd]"

definition bolt_cmd :: "config \<Rightarrow> env \<Rightarrow> string \<Rightarrow> string list \<Rightarrow> string list" where
  "bolt_cmd cfg e bolt_path bolt_args =
     (let p2b = (basename (argv0 e) = ''perf2bolt'');
          cmd = [''/usr/bin/time'', ''-f'', ''%e %M'', bolt_path] @ bolt_args
      in if p2b then cmd @ PERF2BOLT_MODE
         else if \<not> NO_MINIMIZE cfg then cmd @ MINIMIZE_DIFFS
         else cmd)"

definition run_bolt :: "config \<Rightarrow> env \<Rightarrow> string \<Rightarrow> string list \<Rightarrow> event list" where
  "run_bolt cfg e bolt_path bolt_args = run_cmd cfg (bolt_cmd cfg e bolt_path bolt_args)"

section \<open>Timing record\<close>

definition get_real_from_stderr :: "string \<Rightarrow> py_error + string" where
  "get_real_from_stderr log =
     (case splitlines log of
        [] \<Rightarrow> Inl IndexError
      | l # ls \<Rightarrow> Inr (join ''; '' (split_ws (last (l # ls)))))"

definition report_real_time :: "config \<Rightarrow> string \<Rightarrow> string \<Rightarrow> string \<Rightarrow> py_error + event" where
  "report_real_time cfg binary main_err cmp_err =
     (case get_real_from_stderr main_err of
        Inl x \<Rightarrow> Inl x
      | Inr main_t \<Rightarrow>
          (case get_real_from_stderr cmp_err of
             Inl x \<Rightarrow> Inl x
           | Inr cmp_t \<Rightarrow>
               Inr (Write_file (TIMING_FILE cfg)
                      (binary @ ''; '' @ main_t @ ''; '' @ cmp_t @ [CHR 0x0A]) Mode_a)))"

section \<open>Binary comparator\<close>

definition ELF_MAGIC :: string where
  "ELF_MAGIC = [CHR 0x7F, CHR ''E'', CHR ''L'', CHR ''F'']"

text \<open>
  \<^verbatim>\<open>readelf\<close> runs with \<^verbatim>\<open>check=True\<close>: a non-zero status raises
  CalledProcessError. The two dumps go through \<open>compare_logs\<close> with its default
  \<^verbatim>\<open>skip_end=0\<close>.
\<close>

definition compare_headers ::
  "env \<Rightarrow> string \<Rightarrow> string \<Rightarrow> event list \<times> (py_error + (string \<times> string) option)" where
  "compare_headers e lhs rhs =
     (let readelf_lhs = readelf_tool e lhs in
      if returncode readelf_lhs \<noteq> 0 then ([Run_readelf lhs], Inl CalledProcessError)
      else
        let readelf_rhs = readelf_tool e rhs in
        if returncode readelf_rhs \<noteq> 0 then ([Run_readelf lhs, Run_readelf rhs], Inl CalledProcessError)
        else ([Run_readelf lhs, Run_readelf rhs],
              Inr (compare_logs (p_stdout readelf_lhs) (p_stdout readelf_rhs) 0)))"

section \<open>Run coordinator\<close>

text \<open>Lines 256 to 263 of the script: the successful end.\<close>

definition finish :: "config \<Rightarrow> env \<Rightarrow> event list \<times> outcome" where
  "finish cfg e =
     ((if \<not> KEEP_TMP cfg then [Rmtree (tmpdir e)] else []) @
      [Print (p_stdout (base_run e)) Stdout, Print (p_stderr (base_run e)) Stderr],
      Exit_code (returncode (base_run e)))"

text \<open>Lines 235 to 254: the byte comparison and the classification of a difference.\<close>

definition binary_stage :: "config \<Rightarrow> env \<Rightarrow> string \<Rightarrow> string \<Rightarrow> event list \<times> outcome" where
  "binary_stage cfg e main_binary cmp_binary =
     (if \<not> SKIP_BINARY_CMP cfg then
        (let cmp_proc = cmp_tool e main_binary cmp_binary in
         if returncode cmp_proc \<noteq> 0 then
           after [Run_cmp main_binary cmp_binary, Open_rb main_binary]
             (case files e main_binary of
                None \<Rightarrow> ([], Uncaught OSError)
              | Some bytes \<Rightarrow>
                  if take 4 bytes \<noteq> ELF_MAGIC then ([], Exit_msg ''output mismatch'')
                  else
                    (case compare_headers e main_binary cmp_binary of
                       (es, Inl x) \<Rightarrow> (es, Uncaught x)
                     | (es, Inr hdr) \<Rightarrow>
                         if hdr \<noteq> None then
                           (es @ [Print (fmt_cmp hdr) Stdout,
                                  Write_file (path_join (tmpdir e) ''headers.txt'') (fmt_cmp hdr) Mode_w],
                            Exit_msg ''headers mismatch'')
                         else
                           (case parse_cmp_offset (p_stdout cmp_proc) of
                              Inl x \<Rightarrow> (es, Uncaught x)
                            | Inr mismatch_offset \<Rightarrow>
                                (es @ [Print_int mismatch_offset], Exit_msg ''binaries mismatch''))))
         else after [Run_cmp main_binary cmp_binary] (finish cfg e))
      else finish cfg e)"

text \<open>Lines 229 to 233: the two output paths and the timing record.\<close>

definition timing_stage :: "config \<Rightarrow> env \<Rightarrow> string list \<Rightarrow> string list \<Rightarrow> event list \<times> outcome" where
  "timing_stage cfg e args cmp_args =
     (case output_path args of
        Inl x \<Rightarrow> ([], Uncaught x)
      | Inr main_binary \<Rightarrow>
          (case output_path cmp_args of
             Inl x \<Rightarrow> ([], Uncaught x)
           | Inr cmp_binary \<Rightarrow>
               (case report_real_time cfg main_binary (p_stderr (base_run e)) (p_stderr (cmp_run e)) of
                  Inl x \<Rightarrow> ([], Uncaught x)
                | Inr record_written \<Rightarrow>
                    after [record_written] (binary_stage cfg e main_binary cmp_binary))))"

text \<open>The arguments of the two runs (lines 196 to 203).\<close>

definition output_args :: "env \<Rightarrow> (string \<times> string) list" where
  "output_args e = preprocess_args [(''o'', parsed_o e), (''w'', parsed_w e)]"

definition base_args :: "env \<Rightarrow> string list" where
  "base_args e = prepend_dash (output_args e)"

definition cmp_args_of :: "env \<Rightarrow> string list" where
  "cmp_args_of e = replace_cmp_path (tmpdir e) (output_args e)"

text \<open>Lines 205 to 213: both runs are started and awaited, in the configured order.\<close>

definition launch :: "config \<Rightarrow> env \<Rightarrow> event list" where
  "launch cfg e =
     (let main_cmd = bolt_cmd cfg e (BASE_BOLT cfg) (unknownargs e @ base_args e);
          cmp_cmd = bolt_cmd cfg e (CMP_BOLT cfg) (unknownargs e @ cmp_args_of e);
          main_bolt = run_bolt cfg e (BASE_BOLT cfg) (unknownargs e @ base_args e);
          cmp_bolt = run_bolt cfg e (CMP_BOLT cfg) (unknownargs e @ cmp_args_of e)
      in [Mkdtemp (tmpdir e)] @ main_bolt @
         (if RUN_SEQUENTIALLY cfg then [Communicate main_cmd] @ cmp_bolt
          else cmp_bolt @ [Communicate main_cmd]) @
         [Communicate cmp_cmd])"

text \<open>The condition of line 218.\<close>

definition logs_fatal :: "config \<Rightarrow> env \<Rightarrow> bool" where
  "logs_fatal cfg e \<longleftrightarrow>
     (let out = compare_logs (p_stdout (base_run e)) (p_stdout (cmp_run e)) 0;
          err = compare_logs (p_stderr (base_run e)) (p_stderr (cmp_run e)) 1
      in returncode (base_run e) \<noteq> returncode (cmp_run e) \<or>
         (COMPARE_OUTPUT cfg \<and> (out \<noteq> None \<or> err \<noteq> None)))"

text \<open>Lines 220 to 226: what a fatal log stage leaves behind.\<close>

definition log_report :: "env \<Rightarrow> event list" where
  "log_report e =
     (let out = compare_logs (p_stdout (base_run e)) (p_stdout (cmp_run e)) 0;
          err = compare_logs (p_stderr (base_run e)) (p_stderr (cmp_run e)) 1
      in [Print (tmpdir e) Stdout,
          Write_file (path_join (tmpdir e) ''main_bolt.stdout'') (p_stdout (base_run e)) Mode_w,
          Write_file (path_join (tmpdir e) ''cmp_bolt.stdout'') (p_stdout (cmp_run e)) Mode_w,
          Write_file (path_join (tmpdir e) ''main_bolt.stderr'') (p_stderr (base_run e)) Mode_w,
          Write_file (path_join (tmpdir e) ''cmp_bolt.stderr'') (p_stderr (cmp_run e)) Mode_w,
          Write_file (path_join (tmpdir e) ''summary.txt'') (fmt_cmp out @ fmt_cmp err) Mode_w])"

definition main :: "config \<Rightarrow> env \<Rightarrow> event list \<times> outcome" where
  "main cfg e =
     after (launch cfg e)
       (if logs_fatal cfg e then (log_report e, Exit_msg ''exitcode or logs mismatch'')
        else timing_stage cfg e (base_args e) (cmp_args_of e))"

section \<open>Observations and sample runs\<close>

text \<open>The events that write to a given file.\<close>

fun writes_to :: "string \<Rightarrow> event \<Rightarrow> bool" where
  "writes_to path (Write_file p txt m) = (p = path)"
| "writes_to path ev = False"

text \<open>
  A configuration with every optional key absent, and a run in which both tools
  print nothing, leave the timing line on the error stream, exit with 0 and write
  identical output files.
\<close>

definition sample_cfg :: config where
  "sample_cfg =
     \<lparr>BASE_BOLT = ''/base/llvm-bolt.real'', CMP_BOLT = ''/cmp/llvm-bolt'', VERBOSE = False,
      KEEP_TMP = False, NO_MINIMIZE = False, RUN_SEQUENTIALLY = False, COMPARE_OUTPUT = False,
      SKIP_BINARY_CMP = False, TIMING_FILE = ''timing.log''\<rparr>"

definition sample_env :: env where
  "sample_env =
     \<lparr>argv0 = ''/base/llvm-bolt'', parsed_o = Some ''out/a.bolt'', parsed_w = None,
      unknownargs = [''a.out''], tmpdir = ''/tmp/tmpx'',
      base_run = \<lparr>p_stdout = [], p_stderr = ''1.5 100\<newline>'', returncode = 0\<rparr>,
      cmp_run = \<lparr>p_stdout = [], p_stderr = ''2.5 200\<newline>'', returncode = 0\<rparr>,
      cmp_tool = (\<lambda>a b. \<lparr>p_stdout = [], p_stderr = [], returncode = 0\<rparr>),
      readelf_tool = (\<lambda>p. \<lparr>p_stdout = [], p_stderr = [], returncode = 0\<rparr>),
      files = (\<lambda>p. None)\<rparr>"

text \<open>Variants of the sample run: the comparison run exits with 1.\<close>

definition exit_code_diff_env :: env where
  "exit_code_diff_env =
     sample_env\<lparr>cmp_run := \<lparr>p_stdout = [], p_stderr = ''2.5 200\<newline>'', returncode = 1\<rparr>\<rparr>"

text \<open>No \<^verbatim>\<open>-o\<close> on the command line.\<close>

definition no_output_flag_env :: env where
  "no_output_flag_env = sample_env\<lparr>parsed_o := None\<rparr>"

text \<open>Both tools print a line and exit with 3.\<close>

definition nonzero_success_env :: env where
  "nonzero_success_env =
     sample_env\<lparr>base_run := \<lparr>p_stdout = ''done'', p_stderr = ''1.5 100\<newline>'', returncode = 3\<rparr>,
                 cmp_run := \<lparr>p_stdout = ''done'', p_stderr = ''2.5 200\<newline>'', returncode = 3\<rparr>\<rparr>"

text \<open>The output files differ and the primary one is a shell script.\<close>

definition non_elf_env :: env where
  "non_elf_env =
     sample_env\<lparr>cmp_tool := (\<lambda>a b. \<lparr>p_stdout = a @ '' '' @ b @ '' differ: byte 3, line 1\<newline>'',
                                     p_stderr = [], returncode = 1\<rparr>),
                 files := (\<lambda>p. Some ''#!/bin/sh'')\<rparr>"

text \<open>The output files are ELF files that differ at byte 25, and their header dumps differ.\<close>

definition header_diff_env :: env where
  "header_diff_env =
     sample_env\<lparr>cmp_tool := (\<lambda>a b. \<lparr>p_stdout = a @ '' '' @ b @ '' differ: byte 25, line 1\<newline>'',
                                     p_stderr = [], returncode = 1\<rparr>),
                 files := (\<lambda>p. Some (ELF_MAGIC @ ''rest'')),
                 readelf_tool := (\<lambda>p. \<lparr>p_stdout = (if p = ''out/a.bolt''
                                                       then ''  Entry point address: 0x1000''
                                                       else ''  Entry point address: 0x2000''),
                                      p_stderr = [], returncode = 0\<rparr>)\<rparr>"

text \<open>
  One output file is a strict prefix of the other: \<^verbatim>\<open>cmp\<close> reports the end of file on
  its error stream, prints nothing on its standard output and exits with 1.
\<close>

definition strict_prefix_env :: env where
  "strict_prefix_env =
     sample_env\<lparr>cmp_tool := (\<lambda>a b. \<lparr>p_stdout = [],
                                     p_stderr = ''cmp: EOF on '' @ b @ '' after byte 40, in line 1\<newline>'',
                                     returncode = 1\<rparr>),
                 files := (\<lambda>p. Some (ELF_MAGIC @ ''rest''))\<rparr>"

text \<open>
  The texts that contain \<^verbatim>\<open>byte N,\<close> for a non-empty string \<open>N\<close> of decimal digits.
\<close>

definition has_byte_pattern :: "string \<Rightarrow> bool" where
  "has_byte_pattern s \<longleftrightarrow>
     (\<exists>pre ds post. s = pre @ ''byte '' @ ds @ '','' @ post \<and> ds \<noteq> [] \<and> list_all is_digit ds)"

section \<open>Properties of the log comparator\<close>

lemma compare_logs_skip_end_zero: "compare_logs a b 0 = None"
  by (simp add: compare_logs_def slice_to_def)

lemma skip_loop_iff:
  "skip_loop ps l r \<longleftrightarrow> (\<exists>skip\<in>set ps. re_search skip l \<and> re_search skip r)"
  by (induction ps) auto

lemma compare_pairs_find:
  "compare_pairs ps =
     find (\<lambda>(lhs, rhs). lhs \<noteq> rhs \<and>
             \<not> (\<exists>skip\<in>set SKIP_MATCH. re_search skip lhs \<and> re_search skip rhs)) ps"
proof (induction ps)
  case Nil
  show ?case by simp
next
  case (Cons p ps)
  obtain l r where p: "p = (l, r)" by (cases p)
  show ?case unfolding p using Cons.IH by (simp add: skip_loop_iff) blast
qed

lemma compare_pairs_equal_lines:
  "\<forall>p\<in>set ps. fst p = snd p \<Longrightarrow> compare_pairs ps = None"
  by (induction ps) auto

lemma set_slice_to: "set (slice_to xs k) \<subseteq> set xs"
  by (auto simp: slice_to_def dest: in_set_takeD)

lemma zip_self_append: "zip xs (xs @ ys) = zip xs xs"
  by (induction xs) auto

lemma zip_append_self: "zip (xs @ ys) xs = zip xs xs"
  by (induction xs) auto

lemma zip_same_equal: "\<forall>p\<in>set (zip xs xs). fst p = snd p"
  by (induction xs) auto

lemma compare_pairs_slice_equal:
  assumes "\<forall>p\<in>set ps. fst p = snd p"
  shows "compare_pairs (slice_to ps k) = None"
proof (rule compare_pairs_equal_lines)
  have "set (slice_to ps k) \<subseteq> set ps" by (rule set_slice_to)
  with assms show "\<forall>p\<in>set (slice_to ps k). fst p = snd p" by (meson subsetD)
qed

text \<open>
  Claim C1. With \<^verbatim>\<open>skip_end = 0\<close>, as in the comparison of the two standard outputs,
  \<open>compare_logs\<close> is meant to compare every pair of corresponding lines and to return
  the first pair that differs and is not tolerated. The slice \<^verbatim>\<open>[:-skip_end]\<close> is
  \<^verbatim>\<open>[:0]\<close> then, so the loop visits no pair: on the texts \<^verbatim>\<open>a\<close> and \<^verbatim>\<open>b\<close> the
  function returns \<^verbatim>\<open>None\<close>, although the loop run over all the pairs returns the
  pair \<^verbatim>\<open>(a, b)\<close>.
\<close>

theorem compare_logs_default_compares_nothing:
  "compare_logs ''a'' ''b'' 0 = None \<and>
   compare_pairs (zip (splitlines ''a'') (splitlines ''b'')) = Some (''a'', ''b'')"
  by code_simp

text \<open>
  What the loop of \<open>compare_logs\<close> does on the pairs it visits: a pair of different
  lines is passed over exactly when one entry of \<open>SKIP_MATCH\<close> is found in both of its
  lines, and the result is the first pair of different lines for which no entry is
  found in both.
\<close>

lemma compare_logs_visited_pairs:
  "compare_logs main_txt cmp_txt skip_end =
     find (\<lambda>(lhs, rhs). lhs \<noteq> rhs \<and>
             \<not> (\<exists>skip\<in>set SKIP_MATCH. re_search skip lhs \<and> re_search skip rhs))
       (slice_to (zip (splitlines main_txt) (splitlines cmp_txt)) (- skip_end))"
  by (simp add: compare_logs_def compare_pairs_find)

text \<open>
  Claim C2. A pair of different lines is meant to be treated as equal only when one
  entry of \<open>SKIP_MATCH\<close> is found in both lines, and to be returned as a mismatch when
  an entry is found in one line only. In the call with the default \<^verbatim>\<open>skip_end=0\<close>,
  which compares the two standard outputs and the two header dumps, the slice
  \<^verbatim>\<open>[:-skip_end]\<close> leaves no pair to the loop: for the lines \<^verbatim>\<open>Args: a\<close> and
  \<^verbatim>\<open>xArgs: b\<close> the entry \<^verbatim>\<open>^Args: \<close> is found in the first line only and no entry
  is found in both, the loop run on that pair returns it, and \<open>compare_logs\<close>
  returns \<^verbatim>\<open>None\<close>. The same holds for two different lines in which no entry is
  found at all.
\<close>

theorem compare_logs_default_tolerates_one_sided_match:
  "re_search ''^Args: '' ''Args: a'' \<and> \<not> re_search ''^Args: '' ''xArgs: b'' \<and>
   \<not> skip_loop SKIP_MATCH ''Args: a'' ''xArgs: b'' \<and>
   compare_pairs (zip (splitlines ''Args: a'') (splitlines ''xArgs: b''))
     = Some (''Args: a'', ''xArgs: b'') \<and>
   compare_logs ''Args: a'' ''xArgs: b'' 0 = None \<and>
   \<not> skip_loop SKIP_MATCH ''plain one'' ''plain two'' \<and>
   compare_logs ''plain one'' ''plain two'' 0 = None"
  by code_simp

text \<open>
  Claim C9. Only the pairs within the length of the shorter text are compared: when
  the lines of one text are the lines of the other followed by further lines,
  \<open>compare_logs\<close> reports no mismatch, whichever side is the longer one and whatever
  \<^verbatim>\<open>skip_end\<close> is.
\<close>

theorem compare_logs_ignores_extra_lines:
  "splitlines longer = splitlines shorter @ extra \<Longrightarrow>
     compare_logs shorter longer skip_end = None \<and> compare_logs longer shorter skip_end = None"
proof -
  assume ext: "splitlines longer = splitlines shorter @ extra"
  have a: "compare_logs shorter longer skip_end
             = compare_pairs (slice_to (zip (splitlines shorter) (splitlines shorter)) (- skip_end))"
    unfolding compare_logs_def ext zip_self_append ..
  have b: "compare_logs longer shorter skip_end
             = compare_pairs (slice_to (zip (splitlines shorter) (splitlines shorter)) (- skip_end))"
    unfolding compare_logs_def ext zip_append_self ..
  have c: "compare_pairs (slice_to (zip (splitlines shorter) (splitlines shorter)) (- skip_end)) = None"
    by (rule compare_pairs_slice_equal [OF zip_same_equal])
  show ?thesis unfolding a b c by simp
qed

theorem compare_logs_ignores_extra_lines_witness:
  "compare_logs ''x\<newline>y\<newline>t'' ''x\<newline>y\<newline>t\<newline>extra one\<newline>extra two'' 1 = None \<and>
   compare_logs ''x\<newline>y\<newline>t\<newline>extra one\<newline>extra two'' ''x\<newline>y\<newline>t'' 1 = None"
proof -
  have h: "splitlines ''x\<newline>y\<newline>t\<newline>extra one\<newline>extra two'' =
             splitlines ''x\<newline>y\<newline>t'' @ [''extra one'', ''extra two'']"
    by code_simp
  show ?thesis by (rule compare_logs_ignores_extra_lines [OF h])
qed

section \<open>Properties of the run coordinator\<close>

lemma main_fatal:
  "logs_fatal cfg e \<Longrightarrow>
     main cfg e = (launch cfg e @ log_report e, Exit_msg ''exitcode or logs mismatch'')"
  by (simp add: main_def after_def)

lemma main_pass:
  "\<not> logs_fatal cfg e \<Longrightarrow>
     main cfg e = after (launch cfg e) (timing_stage cfg e (base_args e) (cmp_args_of e))"
  by (simp add: main_def)

lemma timing_stage_ok:
  "output_path args = Inr main_binary \<Longrightarrow> output_path cargs = Inr cmp_binary \<Longrightarrow>
   report_real_time cfg main_binary (p_stderr (base_run e)) (p_stderr (cmp_run e)) = Inr written \<Longrightarrow>
     timing_stage cfg e args cargs = after [written] (binary_stage cfg e main_binary cmp_binary)"
  by (simp add: timing_stage_def)

lemma compare_headers_never_reports:
  "compare_headers e lhs rhs = (es, Inr hdr) \<Longrightarrow> hdr = None"
  by (auto simp: compare_headers_def Let_def compare_logs_skip_end_zero split: if_splits)

lemma launch_events:
  "ev \<in> set (launch cfg e) \<Longrightarrow>
     (\<exists>p. ev = Mkdtemp p) \<or> (\<exists>c. ev = Print_cmd c) \<or> (\<exists>c. ev = Popen c) \<or> (\<exists>c. ev = Communicate c)"
  by (auto simp: launch_def run_bolt_def run_cmd_def Let_def split: if_splits)

lemma log_report_keeps_workspace: "Rmtree d \<notin> set (log_report e)"
  by (simp add: log_report_def Let_def)

lemma launch_keeps_workspace: "Rmtree d \<notin> set (launch cfg e)"
  using launch_events by blast

lemma binary_stage_outcome:
  "snd (binary_stage cfg e a b) \<noteq> Exit_msg ''exitcode or logs mismatch''"
  by (auto simp: binary_stage_def after_def finish_def Let_def
           split: option.splits sum.splits prod.splits if_splits)

lemma timing_stage_outcome:
  "snd (timing_stage cfg e args cargs) \<noteq> Exit_msg ''exitcode or logs mismatch''"
  by (auto simp: timing_stage_def after_def binary_stage_outcome split: sum.splits)

text \<open>
  Claim C3. Once both runs are awaited, the log stage ends the invocation with its
  report \<^verbatim>\<open>exitcode or logs mismatch\<close>, a non-zero status and the temporary workspace
  left on disk, exactly when the two exit codes differ or \<open>COMPARE_OUTPUT\<close> is set
  and one of the two log comparisons reports a mismatch. The configuration is
  arbitrary: differing exit codes are fatal whatever the flags are, and a log mismatch
  is fatal only under \<open>COMPARE_OUTPUT\<close>.
\<close>

theorem log_stage_fatal_iff:
  "(snd (main cfg e) = Exit_msg ''exitcode or logs mismatch'' \<and>
    exit_status (snd (main cfg e)) \<noteq> 0 \<and> workspace_retained e (main cfg e))
   \<longleftrightarrow>
   (returncode (base_run e) \<noteq> returncode (cmp_run e) \<or>
    (COMPARE_OUTPUT cfg \<and>
       (compare_logs (p_stdout (base_run e)) (p_stdout (cmp_run e)) 0 \<noteq> None \<or>
        compare_logs (p_stderr (base_run e)) (p_stderr (cmp_run e)) 1 \<noteq> None)))"
proof (cases "logs_fatal cfg e")
  case True
  then have "main cfg e = (launch cfg e @ log_report e, Exit_msg ''exitcode or logs mismatch'')"
    by (rule main_fatal)
  then have "snd (main cfg e) = Exit_msg ''exitcode or logs mismatch'' \<and>
    exit_status (snd (main cfg e)) \<noteq> 0 \<and> workspace_retained e (main cfg e)"
    by (simp add: workspace_retained_def launch_keeps_workspace log_report_keeps_workspace)
  with True show ?thesis by (simp add: logs_fatal_def Let_def)
next
  case False
  then have "snd (main cfg e) = snd (timing_stage cfg e (base_args e) (cmp_args_of e))"
    by (simp add: main_pass after_def)
  then have "snd (main cfg e) \<noteq> Exit_msg ''exitcode or logs mismatch''"
    by (simp add: timing_stage_outcome)
  with False show ?thesis by (simp add: logs_fatal_def Let_def)
qed

theorem log_stage_fatal_iff_witness:
  "snd (main sample_cfg exit_code_diff_env) = Exit_msg ''exitcode or logs mismatch''"
proof -
  have "returncode (base_run exit_code_diff_env) \<noteq> returncode (cmp_run exit_code_diff_env)"
    by code_simp
  then show ?thesis
    using log_stage_fatal_iff [of sample_cfg exit_code_diff_env] by blast
qed

subsection \<open>After the log stage\<close>

lemma launch_no_readelf: "Run_readelf p \<notin> set (launch cfg e)"
  using launch_events by blast

lemma launch_no_print_int: "Print_int n \<notin> set (launch cfg e)"
  using launch_events by blast

lemma launch_no_write: "filter (writes_to path) (launch cfg e) = []"
proof -
  have "\<forall>ev\<in>set (launch cfg e). \<not> writes_to path ev"
    using launch_events by fastforce
  then show ?thesis by (simp add: filter_empty_conv)
qed

lemma report_real_time_event:
  "report_real_time cfg binary a b = Inr written \<Longrightarrow>
     \<exists>line. written = Write_file (TIMING_FILE cfg) line Mode_a"
  by (auto simp: report_real_time_def split: sum.splits)

lemma report_real_time_value:
  "splitlines main_err \<noteq> [] \<Longrightarrow> splitlines cmp_err \<noteq> [] \<Longrightarrow>
     report_real_time cfg binary main_err cmp_err =
       Inr (Write_file (TIMING_FILE cfg)
              (binary @ ''; '' @ join ''; '' (split_ws (last (splitlines main_err))) @ ''; '' @
               join ''; '' (split_ws (last (splitlines cmp_err))) @ [CHR 0x0A]) Mode_a)"
  by (auto simp: report_real_time_def get_real_from_stderr_def split: list.splits)

lemma compare_headers_events:
  "compare_headers e lhs rhs = (es, r) \<Longrightarrow> filter (writes_to path) es = []"
  by (auto simp: compare_headers_def Let_def split: if_splits)

lemma binary_stage_no_write:
  "filter (writes_to path) (fst (binary_stage cfg e a b)) = []"
proof (cases "compare_headers e a b")
  case (Pair es r)
  then have none: "r = Inr hdr \<Longrightarrow> hdr = None" for hdr
    using compare_headers_never_reports by blast
  have nw: "filter (writes_to path) es = []"
    using Pair by (rule compare_headers_events)
  show ?thesis
    using none nw Pair
    by (auto simp: binary_stage_def after_def finish_def Let_def
             split: option.splits sum.splits if_splits)
qed

lemma output_path_base:
  "parsed_o e = Some path \<Longrightarrow> path \<noteq> [] \<Longrightarrow> output_path (base_args e) = Inr path"
  by (simp add: base_args_def output_args_def preprocess_args_def prepend_dash_def
        output_path_def item_at_def)

lemma output_path_cmp:
  "parsed_o e = Some path \<Longrightarrow> path \<noteq> [] \<Longrightarrow>
     output_path (cmp_args_of e) = Inr (path_join (tmpdir e) (basename path))"
  by (simp add: cmp_args_of_def replace_cmp_path_def output_args_def preprocess_args_def
        prepend_dash_def output_path_def item_at_def)

lemma single_lines_pass:
  "splitlines a = [x] \<Longrightarrow> splitlines b = [y] \<Longrightarrow> compare_logs a b 1 = None"
  by (simp add: compare_logs_def slice_to_def)

lemma success_run:
  assumes pass: "\<not> logs_fatal cfg e"
    and mb: "output_path (base_args e) = Inr main_binary"
    and cb: "output_path (cmp_args_of e) = Inr cmp_binary"
    and tm: "report_real_time cfg main_binary (p_stderr (base_run e)) (p_stderr (cmp_run e)) = Inr written"
    and same: "SKIP_BINARY_CMP cfg \<or> returncode (cmp_tool e main_binary cmp_binary) = 0"
  shows "main cfg e =
           (launch cfg e @ [written] @
            (if SKIP_BINARY_CMP cfg then [] else [Run_cmp main_binary cmp_binary]) @
            (if KEEP_TMP cfg then [] else [Rmtree (tmpdir e)]) @
            [Print (p_stdout (base_run e)) Stdout, Print (p_stderr (base_run e)) Stderr],
            Exit_code (returncode (base_run e)))"
proof -
  have bin: "binary_stage cfg e main_binary cmp_binary =
               ((if SKIP_BINARY_CMP cfg then [] else [Run_cmp main_binary cmp_binary]) @
                (if KEEP_TMP cfg then [] else [Rmtree (tmpdir e)]) @
                [Print (p_stdout (base_run e)) Stdout, Print (p_stderr (base_run e)) Stderr],
                Exit_code (returncode (base_run e)))"
    using same by (auto simp: binary_stage_def after_def finish_def)
  show ?thesis
    by (simp add: main_pass [OF pass] timing_stage_ok [OF mb cb tm] bin after_def)
qed

text \<open>
  Claim C4. Two ELF output files that differ, with header dumps that differ, are meant
  to end in \<^verbatim>\<open>headers mismatch\<close>. \<open>compare_headers\<close> calls \<open>compare_logs\<close> with its
  default \<^verbatim>\<open>skip_end=0\<close>, which visits no line pair, so the differing dumps are not
  noticed: on two dumps whose only line differs and is not tolerated,
  \<open>compare_headers\<close> returns \<^verbatim>\<open>None\<close>, and the run prints the byte offset and ends
  in \<^verbatim>\<open>binaries mismatch\<close> without writing \<^verbatim>\<open>headers.txt\<close>.
\<close>

theorem header_difference_ends_in_binaries_mismatch:
  "compare_pairs (zip (splitlines (p_stdout (readelf_tool header_diff_env ''out/a.bolt'')))
                      (splitlines (p_stdout (readelf_tool header_diff_env ''/tmp/tmpx/a.bolt''))))
     = Some (''  Entry point address: 0x1000'', ''  Entry point address: 0x2000'') \<and>
   snd (compare_headers header_diff_env ''out/a.bolt'' ''/tmp/tmpx/a.bolt'') = Inr None \<and>
   main sample_cfg header_diff_env =
     (launch sample_cfg header_diff_env @
      [Write_file ''timing.log'' ''out/a.bolt; 1.5; 100; 2.5; 200\<newline>'' Mode_a,
       Run_cmp ''out/a.bolt'' ''/tmp/tmpx/a.bolt'', Open_rb ''out/a.bolt'',
       Run_readelf ''out/a.bolt'', Run_readelf ''/tmp/tmpx/a.bolt'', Print_int 25],
      Exit_msg ''binaries mismatch'')"
  by code_simp

text \<open>
  Claim C5, as stated: the record keeps each run's elapsed seconds and peak memory
  in one field, separated by a space. On the sample run the record that is written
  has them in two fields.
\<close>

theorem timing_record_format_counterexample:
  "\<not> logs_fatal sample_cfg sample_env \<and>
   filter (writes_to ''timing.log'') (fst (main sample_cfg sample_env)) =
     [Write_file ''timing.log'' ''out/a.bolt; 1.5; 100; 2.5; 200\<newline>'' Mode_a] \<and>
   Write_file ''timing.log'' ''out/a.bolt; 1.5 100; 2.5 200\<newline>'' Mode_a
     \<notin> set (fst (main sample_cfg sample_env))"
  by code_simp

text \<open>
  Claim C5, amended. After the log stage passes, with an output binary among the
  arguments and at least one line on each captured error stream, the run writes to
  the timing log exactly once, in append mode: the path of the output binary, then
  the blank-separated tokens of the last line of the base run's error stream, then
  those of the comparison run's, all joined by a semicolon and a space, and a
  newline.
\<close>

theorem timing_record_appended:
  assumes pass: "\<not> logs_fatal cfg e"
    and mb: "output_path (base_args e) = Inr main_binary"
    and cb: "output_path (cmp_args_of e) = Inr cmp_binary"
    and l1: "splitlines (p_stderr (base_run e)) \<noteq> []"
    and l2: "splitlines (p_stderr (cmp_run e)) \<noteq> []"
  shows "filter (writes_to (TIMING_FILE cfg)) (fst (main cfg e)) =
           [Write_file (TIMING_FILE cfg)
              (main_binary @ ''; '' @
               join ''; '' (split_ws (last (splitlines (p_stderr (base_run e))))) @ ''; '' @
               join ''; '' (split_ws (last (splitlines (p_stderr (cmp_run e))))) @ [CHR 0x0A])
              Mode_a]"
proof -
  note tm = report_real_time_value [OF l1 l2, of cfg main_binary]
  show ?thesis
    by (simp add: main_pass [OF pass] timing_stage_ok [OF mb cb tm] after_def
          launch_no_write binary_stage_no_write)
qed

theorem timing_record_appended_witness:
  "filter (writes_to ''timing.log'') (fst (main sample_cfg nonzero_success_env)) =
     [Write_file ''timing.log'' ''out/a.bolt; 1.5; 100; 2.5; 200\<newline>'' Mode_a]"
proof -
  have pass: "\<not> logs_fatal sample_cfg nonzero_success_env" by code_simp
  have mb: "output_path (base_args nonzero_success_env) = Inr ''out/a.bolt''" by code_simp
  have cb: "output_path (cmp_args_of nonzero_success_env) = Inr ''/tmp/tmpx/a.bolt''" by code_simp
  have l1: "splitlines (p_stderr (base_run nonzero_success_env)) \<noteq> []" by code_simp
  have l2: "splitlines (p_stderr (cmp_run nonzero_success_env)) \<noteq> []" by code_simp
  have tf: "TIMING_FILE sample_cfg = ''timing.log''" by code_simp
  have line: "''out/a.bolt'' @ ''; '' @
               join ''; '' (split_ws (last (splitlines (p_stderr (base_run nonzero_success_env))))) @
               ''; '' @
               join ''; '' (split_ws (last (splitlines (p_stderr (cmp_run nonzero_success_env))))) @
               [CHR 0x0A]
             = ''out/a.bolt; 1.5; 100; 2.5; 200\<newline>''" by code_simp
  show ?thesis using timing_record_appended [OF pass mb cb l1 l2] unfolding tf line .
qed

text \<open>
  Claim C6, as stated: two tools that print nothing and exit with 0, and no output
  binary among the arguments, give exit code 0 and a timing line. On that run
  \<^verbatim>\<open>args.index('-o')\<close> raises ValueError, which nothing catches: the status is 1 and
  nothing is written to the timing log.
\<close>

theorem no_output_flag_counterexample:
  "parsed_o no_output_flag_env = None \<and>
   p_stdout (base_run no_output_flag_env) = [] \<and> p_stdout (cmp_run no_output_flag_env) = [] \<and>
   returncode (base_run no_output_flag_env) = 0 \<and> returncode (cmp_run no_output_flag_env) = 0 \<and>
   main sample_cfg no_output_flag_env = (launch sample_cfg no_output_flag_env, Uncaught ValueError) \<and>
   exit_status (snd (main sample_cfg no_output_flag_env)) = 1 \<and>
   filter (writes_to ''timing.log'') (fst (main sample_cfg no_output_flag_env)) = []"
  by code_simp

text \<open>
  Claim C6, amended. Two tools that print nothing, leave only the timing line on the
  error stream and exit with 0, run with an output binary of non-empty path among the
  arguments, and with the byte comparison either switched off or finding no
  difference: the wrapper exits with code 0 and writes one line to the timing log.
\<close>

theorem noop_run_exits_zero:
  assumes o: "parsed_o e = Some path" and ne: "path \<noteq> []"
    and rc1: "returncode (base_run e) = 0" and rc2: "returncode (cmp_run e) = 0"
    and out1: "p_stdout (base_run e) = []" and out2: "p_stdout (cmp_run e) = []"
    and err1: "splitlines (p_stderr (base_run e)) = [t1]"
    and err2: "splitlines (p_stderr (cmp_run e)) = [t2]"
    and same: "SKIP_BINARY_CMP cfg \<or>
               returncode (cmp_tool e path (path_join (tmpdir e) (basename path))) = 0"
  shows "snd (main cfg e) = Exit_code 0 \<and> exit_status (snd (main cfg e)) = 0 \<and>
         filter (writes_to (TIMING_FILE cfg)) (fst (main cfg e)) =
           [Write_file (TIMING_FILE cfg)
              (path @ ''; '' @ join ''; '' (split_ws t1) @ ''; '' @ join ''; '' (split_ws t2) @
               [CHR 0x0A]) Mode_a]"
proof -
  have pass: "\<not> logs_fatal cfg e"
    by (simp add: logs_fatal_def Let_def rc1 rc2 compare_logs_skip_end_zero
          single_lines_pass [OF err1 err2])
  note mb = output_path_base [OF o ne]
  note cb = output_path_cmp [OF o ne]
  have l1: "splitlines (p_stderr (base_run e)) \<noteq> []" by (simp add: err1)
  have l2: "splitlines (p_stderr (cmp_run e)) \<noteq> []" by (simp add: err2)
  note tm = report_real_time_value [OF l1 l2, of cfg path]
  have run: "snd (main cfg e) = Exit_code 0"
    by (simp add: success_run [OF pass mb cb tm same] rc1)
  have wr: "filter (writes_to (TIMING_FILE cfg)) (fst (main cfg e)) =
           [Write_file (TIMING_FILE cfg)
              (path @ ''; '' @ join ''; '' (split_ws t1) @ ''; '' @ join ''; '' (split_ws t2) @
               [CHR 0x0A]) Mode_a]"
    by (simp add: main_pass [OF pass] timing_stage_ok [OF mb cb tm] after_def
          launch_no_write binary_stage_no_write err1 err2)
  show ?thesis using run wr by simp
qed

theorem noop_run_exits_zero_witness:
  "snd (main sample_cfg sample_env) = Exit_code 0 \<and>
   filter (writes_to ''timing.log'') (fst (main sample_cfg sample_env)) =
     [Write_file ''timing.log'' ''out/a.bolt; 1.5; 100; 2.5; 200\<newline>'' Mode_a]"
proof -
  have o: "parsed_o sample_env = Some ''out/a.bolt''" by code_simp
  have ne: "''out/a.bolt'' \<noteq> []" by simp
  have rc1: "returncode (base_run sample_env) = 0" by code_simp
  have rc2: "returncode (cmp_run sample_env) = 0" by code_simp
  have out1: "p_stdout (base_run sample_env) = []" by code_simp
  have out2: "p_stdout (cmp_run sample_env) = []" by code_simp
  have err1: "splitlines (p_stderr (base_run sample_env)) = [''1.5 100'']" by code_simp
  have err2: "splitlines (p_stderr (cmp_run sample_env)) = [''2.5 200'']" by code_simp
  have same: "SKIP_BINARY_CMP sample_cfg \<or>
      returncode (cmp_tool sample_env ''out/a.bolt''
                    (path_join (tmpdir sample_env) (basename ''out/a.bolt''))) = 0"
    by code_simp
  have tf: "TIMING_FILE sample_cfg = ''timing.log''" by code_simp
  have line: "''out/a.bolt'' @ ''; '' @ join ''; '' (split_ws ''1.5 100'') @ ''; '' @
                join ''; '' (split_ws ''2.5 200'') @ [CHR 0x0A]
              = ''out/a.bolt; 1.5; 100; 2.5; 200\<newline>''" by code_simp
  show ?thesis
    using noop_run_exits_zero [OF o ne rc1 rc2 out1 out2 err1 err2 same] unfolding tf line
    by simp
qed

text \<open>
  Claim C7. When the run reaches the byte comparison (the log stage passed, the two
  output paths were found, the timing record was written, the comparison is not
  switched off), \<^verbatim>\<open>cmp\<close> reports a difference, and the first four bytes of the primary
  output are not the ELF magic, the run ends in \<^verbatim>\<open>output mismatch\<close> right after
  reading those bytes: \<^verbatim>\<open>readelf\<close> is never run and no byte offset is printed.
\<close>

theorem non_elf_output_mismatch:
  assumes pass: "\<not> logs_fatal cfg e"
    and mb: "output_path (base_args e) = Inr main_binary"
    and cb: "output_path (cmp_args_of e) = Inr cmp_binary"
    and tm: "report_real_time cfg main_binary (p_stderr (base_run e)) (p_stderr (cmp_run e)) = Inr written"
    and enabled: "\<not> SKIP_BINARY_CMP cfg"
    and differ: "returncode (cmp_tool e main_binary cmp_binary) \<noteq> 0"
    and bytes: "files e main_binary = Some bytes"
    and magic: "take 4 bytes \<noteq> ELF_MAGIC"
  shows "main cfg e =
           (launch cfg e @ [written, Run_cmp main_binary cmp_binary, Open_rb main_binary],
            Exit_msg ''output mismatch'') \<and>
         (\<forall>p. Run_readelf p \<notin> set (fst (main cfg e))) \<and>
         (\<forall>n. Print_int n \<notin> set (fst (main cfg e)))"
proof -
  have bin: "binary_stage cfg e main_binary cmp_binary =
               ([Run_cmp main_binary cmp_binary, Open_rb main_binary], Exit_msg ''output mismatch'')"
    using enabled differ bytes magic by (simp add: binary_stage_def after_def)
  have run: "main cfg e =
           (launch cfg e @ [written, Run_cmp main_binary cmp_binary, Open_rb main_binary],
            Exit_msg ''output mismatch'')"
    by (simp add: main_pass [OF pass] timing_stage_ok [OF mb cb tm] bin after_def)
  obtain line where w: "written = Write_file (TIMING_FILE cfg) line Mode_a"
    using report_real_time_event [OF tm] by blast
  show ?thesis
    by (simp add: run w launch_no_readelf launch_no_print_int)
qed

theorem non_elf_output_mismatch_witness:
  "main sample_cfg non_elf_env =
     (launch sample_cfg non_elf_env @
      [Write_file ''timing.log'' ''out/a.bolt; 1.5; 100; 2.5; 200\<newline>'' Mode_a,
       Run_cmp ''out/a.bolt'' ''/tmp/tmpx/a.bolt'', Open_rb ''out/a.bolt''],
      Exit_msg ''output mismatch'')"
proof -
  have pass: "\<not> logs_fatal sample_cfg non_elf_env" by code_simp
  have mb: "output_path (base_args non_elf_env) = Inr ''out/a.bolt''" by code_simp
  have cb: "output_path (cmp_args_of non_elf_env) = Inr ''/tmp/tmpx/a.bolt''" by code_simp
  have tm: "report_real_time sample_cfg ''out/a.bolt'' (p_stderr (base_run non_elf_env))
              (p_stderr (cmp_run non_elf_env)) =
            Inr (Write_file ''timing.log'' ''out/a.bolt; 1.5; 100; 2.5; 200\<newline>'' Mode_a)"
    by code_simp
  have enabled: "\<not> SKIP_BINARY_CMP sample_cfg" by code_simp
  have differ: "returncode (cmp_tool non_elf_env ''out/a.bolt'' ''/tmp/tmpx/a.bolt'') \<noteq> 0"
    by code_simp
  have bytes: "files non_elf_env ''out/a.bolt'' = Some ''#!/bin/sh''" by code_simp
  have magic: "take 4 ''#!/bin/sh'' \<noteq> ELF_MAGIC" by code_simp
  show ?thesis
    using non_elf_output_mismatch [OF pass mb cb tm enabled differ bytes magic] by simp
qed

text \<open>
  Claim C8. On the successful end of a run (the log stage passed, the timing record
  was written, and the byte comparison is switched off or finds no difference) the
  temporary workspace is removed unless \<open>KEEP_TMP\<close> is set, then the standard output
  and the standard error of the base run are printed to the wrapper's standard output
  and standard error, and the wrapper exits with the exit code of the base run.
\<close>

theorem success_cleans_up_and_exits_with_base_code:
  assumes pass: "\<not> logs_fatal cfg e"
    and mb: "output_path (base_args e) = Inr main_binary"
    and cb: "output_path (cmp_args_of e) = Inr cmp_binary"
    and tm: "report_real_time cfg main_binary (p_stderr (base_run e)) (p_stderr (cmp_run e)) = Inr written"
    and same: "SKIP_BINARY_CMP cfg \<or> returncode (cmp_tool e main_binary cmp_binary) = 0"
  shows "main cfg e =
           (launch cfg e @ [written] @
            (if SKIP_BINARY_CMP cfg then [] else [Run_cmp main_binary cmp_binary]) @
            (if KEEP_TMP cfg then [] else [Rmtree (tmpdir e)]) @
            [Print (p_stdout (base_run e)) Stdout, Print (p_stderr (base_run e)) Stderr],
            Exit_code (returncode (base_run e))) \<and>
         (workspace_retained e (main cfg e) \<longleftrightarrow> KEEP_TMP cfg)"
proof -
  note run = success_run [OF pass mb cb tm same]
  obtain line where w: "written = Write_file (TIMING_FILE cfg) line Mode_a"
    using report_real_time_event [OF tm] by blast
  have "workspace_retained e (main cfg e) \<longleftrightarrow> KEEP_TMP cfg"
    by (simp add: run w workspace_retained_def launch_keeps_workspace)
  with run show ?thesis by blast
qed

theorem success_cleans_up_and_exits_with_base_code_witness:
  "main sample_cfg nonzero_success_env =
     (launch sample_cfg nonzero_success_env @
      [Write_file ''timing.log'' ''out/a.bolt; 1.5; 100; 2.5; 200\<newline>'' Mode_a,
       Run_cmp ''out/a.bolt'' ''/tmp/tmpx/a.bolt'', Rmtree ''/tmp/tmpx'',
       Print ''done'' Stdout, Print ''1.5 100\<newline>'' Stderr],
      Exit_code 3)"
proof -
  have pass: "\<not> logs_fatal sample_cfg nonzero_success_env" by code_simp
  have mb: "output_path (base_args nonzero_success_env) = Inr ''out/a.bolt''" by code_simp
  have cb: "output_path (cmp_args_of nonzero_success_env) = Inr ''/tmp/tmpx/a.bolt''" by code_simp
  have tm: "report_real_time sample_cfg ''out/a.bolt'' (p_stderr (base_run nonzero_success_env))
              (p_stderr (cmp_run nonzero_success_env)) =
            Inr (Write_file ''timing.log'' ''out/a.bolt; 1.5; 100; 2.5; 200\<newline>'' Mode_a)"
    by code_simp
  have same: "SKIP_BINARY_CMP sample_cfg \<or>
              returncode (cmp_tool nonzero_success_env ''out/a.bolt'' ''/tmp/tmpx/a.bolt'') = 0"
    by code_simp
  have k: "\<not> KEEP_TMP sample_cfg" "\<not> SKIP_BINARY_CMP sample_cfg" by code_simp+
  have v: "tmpdir nonzero_success_env = ''/tmp/tmpx''"
    "p_stdout (base_run nonzero_success_env) = ''done''"
    "p_stderr (base_run nonzero_success_env) = ''1.5 100\<newline>''"
    "returncode (base_run nonzero_success_env) = 3"
    by code_simp+
  show ?thesis
    using success_cleans_up_and_exits_with_base_code [OF pass mb cb tm same] by (simp add: k v)
qed

section \<open>Properties of the byte offset parser\<close>

lemma strip_prefix_iff: "strip_prefix p s = Some r \<longleftrightarrow> s = p @ r"
  by (induction p s rule: strip_prefix.induct) auto

lemma comma_not_digit: "\<not> is_digit CHR '',''"
  by (simp add: is_digit_def)

lemma match_byte_at_iff:
  "match_byte_at s = Some ds \<longleftrightarrow>
     ds \<noteq> [] \<and> list_all is_digit ds \<and> (\<exists>post. s = ''byte '' @ ds @ '','' @ post)"
proof
  assume m: "match_byte_at s = Some ds"
  then obtain r where r: "strip_prefix ''byte '' s = Some r"
    by (auto simp: match_byte_at_def split: option.splits)
  then have s: "s = ''byte '' @ r" by (simp only: strip_prefix_iff)
  from m r obtain c rest where d: "dropWhile is_digit r = c # rest"
    and t: "takeWhile is_digit r \<noteq> []" and c: "c = CHR '',''" and ds: "ds = takeWhile is_digit r"
    by (auto simp: match_byte_at_def split: list.splits if_splits)
  have "r = takeWhile is_digit r @ dropWhile is_digit r" by simp
  then have "r = ds @ '','' @ rest" using d c ds by simp
  moreover have "list_all is_digit ds"
    unfolding ds list_all_iff using set_takeWhileD by fastforce
  ultimately show "ds \<noteq> [] \<and> list_all is_digit ds \<and> (\<exists>post. s = ''byte '' @ ds @ '','' @ post)"
    using t ds s by auto
next
  assume a: "ds \<noteq> [] \<and> list_all is_digit ds \<and> (\<exists>post. s = ''byte '' @ ds @ '','' @ post)"
  then obtain post where s: "s = ''byte '' @ (ds @ CHR '','' # post)" by auto
  have all: "\<And>x. x \<in> set ds \<Longrightarrow> is_digit x" using a by (simp add: list_all_iff)
  have sp: "strip_prefix ''byte '' s = Some (ds @ CHR '','' # post)"
    unfolding strip_prefix_iff s ..
  have tw: "takeWhile is_digit (ds @ CHR '','' # post) = ds"
    using all by (simp add: takeWhile_tail comma_not_digit)
  have dw: "dropWhile is_digit (ds @ CHR '','' # post) = CHR '','' # post"
    using all by (simp add: dropWhile_append2 comma_not_digit)
  show "match_byte_at s = Some ds"
    using a by (simp add: match_byte_at_def sp tw dw)
qed

lemma has_byte_pattern_Cons:
  "has_byte_pattern (c # s) \<longleftrightarrow> match_byte_at (c # s) \<noteq> None \<or> has_byte_pattern s"
proof
  assume "has_byte_pattern (c # s)"
  then obtain pre ds post where d: "c # s = pre @ ''byte '' @ ds @ '','' @ post"
    and ne: "ds \<noteq> []" and dg: "list_all is_digit ds"
    unfolding has_byte_pattern_def by blast
  show "match_byte_at (c # s) \<noteq> None \<or> has_byte_pattern s"
  proof (cases pre)
    case Nil
    then have "match_byte_at (c # s) = Some ds"
      using d ne dg by (subst match_byte_at_iff) auto
    then show ?thesis by simp
  next
    case (Cons x pre')
    then have "s = pre' @ ''byte '' @ ds @ '','' @ post" using d by simp
    then have "has_byte_pattern s" unfolding has_byte_pattern_def using ne dg by blast
    then show ?thesis ..
  qed
next
  assume "match_byte_at (c # s) \<noteq> None \<or> has_byte_pattern s"
  then show "has_byte_pattern (c # s)"
  proof
    assume "match_byte_at (c # s) \<noteq> None"
    then obtain ds where "match_byte_at (c # s) = Some ds" by blast
    then obtain post where "ds \<noteq> []" "list_all is_digit ds" "c # s = [] @ ''byte '' @ ds @ '','' @ post"
      unfolding match_byte_at_iff by auto
    then show ?thesis unfolding has_byte_pattern_def by blast
  next
    assume "has_byte_pattern s"
    then obtain pre ds post where "s = pre @ ''byte '' @ ds @ '','' @ post" "ds \<noteq> []" "list_all is_digit ds"
      unfolding has_byte_pattern_def by blast
    then have "c # s = (c # pre) @ ''byte '' @ ds @ '','' @ post \<and> ds \<noteq> [] \<and> list_all is_digit ds"
      by simp
    then show ?thesis unfolding has_byte_pattern_def by blast
  qed
qed

lemma has_byte_pattern_Nil: "\<not> has_byte_pattern []"
  by (simp add: has_byte_pattern_def)

lemma search_byte_None_iff: "search_byte s = None \<longleftrightarrow> \<not> has_byte_pattern s"
proof (induction s)
  case Nil
  show ?case by (simp add: has_byte_pattern_Nil match_byte_at_def)
next
  case (Cons c s)
  show ?case
    unfolding has_byte_pattern_Cons using Cons.IH
    by (cases "match_byte_at (c # s)") auto
qed

lemma b_not_digit: "\<not> is_digit CHR ''b''"
  by (simp add: is_digit_def)

lemma no_match_before:
  assumes np: "\<not> has_byte_pattern (c # pre)"
    and ne: "ds \<noteq> []" and dg: "list_all is_digit ds"
  shows "match_byte_at ((c # pre) @ ''byte '' @ ds @ '','' @ post) = None"
proof (rule ccontr)
  assume "match_byte_at ((c # pre) @ ''byte '' @ ds @ '','' @ post) \<noteq> None"
  then obtain ds' where "match_byte_at ((c # pre) @ ''byte '' @ ds @ '','' @ post) = Some ds'"
    by blast
  then obtain post' where ne': "ds' \<noteq> []" and dg': "list_all is_digit ds'"
    and eq: "(c # pre) @ (''byte '' @ ds @ '','' @ post) = (''byte '' @ ds' @ '','') @ post'"
    unfolding match_byte_at_iff by auto
  from eq obtain us where
    "(c # pre = (''byte '' @ ds' @ '','') @ us \<and> us @ (''byte '' @ ds @ '','' @ post) = post') \<or>
     ((c # pre) @ us = ''byte '' @ ds' @ '','' \<and> ''byte '' @ ds @ '','' @ post = us @ post')"
    unfolding append_eq_append_conv2 by blast
  then show False
  proof
    assume "c # pre = (''byte '' @ ds' @ '','') @ us \<and> us @ (''byte '' @ ds @ '','' @ post) = post'"
    then have "c # pre = [] @ ''byte '' @ ds' @ '','' @ us" by simp
    then have "has_byte_pattern (c # pre)"
      unfolding has_byte_pattern_def using ne' dg' by blast
    with np show False ..
  next
    assume a: "(c # pre) @ us = ''byte '' @ ds' @ '','' \<and> ''byte '' @ ds @ '','' @ post = us @ post'"
    show False
    proof (cases us)
      case Nil
      with a have "c # pre = [] @ ''byte '' @ ds' @ '','' @ []" by simp
      then have "has_byte_pattern (c # pre)"
        unfolding has_byte_pattern_def using ne' dg' by blast
      with np show False ..
    next
      case (Cons u us')
      with a have "u = CHR ''b''" by simp
      with Cons a have "pre @ CHR ''b'' # us' = ''yte '' @ ds' @ '',''" by simp
      then have "CHR ''b'' \<in> set (''yte '' @ ds' @ '','')"
        by (metis in_set_conv_decomp)
      then have "CHR ''b'' \<in> set ds'" by simp
      then have "is_digit CHR ''b''" using dg' by (simp add: list_all_iff)
      then show False by (simp add: b_not_digit)
    qed
  qed
qed

lemma search_byte_skips:
  assumes ne: "ds \<noteq> []" and dg: "list_all is_digit ds"
  shows "\<not> has_byte_pattern pre \<Longrightarrow>
     search_byte (pre @ ''byte '' @ ds @ '','' @ post) = Some ds"
proof (induction pre)
  case Nil
  have m: "match_byte_at (''byte '' @ ds @ '','' @ post) = Some ds"
    unfolding match_byte_at_iff using ne dg by blast
  then show ?case by simp
next
  case (Cons c pre)
  have none: "match_byte_at ((c # pre) @ ''byte '' @ ds @ '','' @ post) = None"
    using Cons.prems ne dg by (rule no_match_before)
  have "\<not> has_byte_pattern pre"
    using Cons.prems unfolding has_byte_pattern_Cons by simp
  then have "search_byte (pre @ ''byte '' @ ds @ '','' @ post) = Some ds"
    by (rule Cons.IH)
  with none show ?case by simp
qed

lemma parse_cmp_offset_first:
  assumes "ds \<noteq> []" and "list_all is_digit ds" and "\<not> has_byte_pattern pre"
  shows "parse_cmp_offset (pre @ ''byte '' @ ds @ '','' @ post) = Inr (int_of_digits ds)"
  unfolding parse_cmp_offset_def search_byte_skips [OF assms] by simp

lemma parse_cmp_offset_ok_iff: "(\<exists>n. parse_cmp_offset s = Inr n) \<longleftrightarrow> has_byte_pattern s"
  using search_byte_None_iff [of s]
  by (auto simp: parse_cmp_offset_def split: option.splits)

lemma parse_cmp_offset_error_iff:
  "parse_cmp_offset s = Inl AttributeError \<longleftrightarrow> \<not> has_byte_pattern s"
  using search_byte_None_iff [of s]
  by (auto simp: parse_cmp_offset_def split: option.splits)

lemma elf_mismatch_run:
  assumes pass: "\<not> logs_fatal cfg e"
    and mb: "output_path (base_args e) = Inr main_binary"
    and cb: "output_path (cmp_args_of e) = Inr cmp_binary"
    and tm: "report_real_time cfg main_binary (p_stderr (base_run e)) (p_stderr (cmp_run e)) = Inr written"
    and enabled: "\<not> SKIP_BINARY_CMP cfg"
    and differ: "returncode (cmp_tool e main_binary cmp_binary) \<noteq> 0"
    and bytes: "files e main_binary = Some bytes"
    and magic: "take 4 bytes = ELF_MAGIC"
    and r1: "returncode (readelf_tool e main_binary) = 0"
    and r2: "returncode (readelf_tool e cmp_binary) = 0"
  shows "snd (main cfg e) =
           (case parse_cmp_offset (p_stdout (cmp_tool e main_binary cmp_binary)) of
              Inl x \<Rightarrow> Uncaught x
            | Inr mismatch_offset \<Rightarrow> Exit_msg ''binaries mismatch'')"
proof -
  have hdr: "compare_headers e main_binary cmp_binary =
               ([Run_readelf main_binary, Run_readelf cmp_binary], Inr None)"
    using r1 r2 by (simp add: compare_headers_def compare_logs_skip_end_zero)
  have "snd (binary_stage cfg e main_binary cmp_binary) =
           (case parse_cmp_offset (p_stdout (cmp_tool e main_binary cmp_binary)) of
              Inl x \<Rightarrow> Uncaught x
            | Inr mismatch_offset \<Rightarrow> Exit_msg ''binaries mismatch'')"
    using enabled differ bytes magic
    by (simp add: binary_stage_def after_def hdr split: sum.splits)
  then show ?thesis
    by (simp add: main_pass [OF pass] timing_stage_ok [OF mb cb tm] after_def)
qed

text \<open>
  Claim C10. \<open>parse_cmp_offset\<close> returns the number after the first \<^verbatim>\<open>byte\<close> of a
  text that contains \<^verbatim>\<open>byte N,\<close>; it returns a number exactly for the texts that
  contain such a part, and raises AttributeError exactly for those that do not, the
  empty text among them. Nothing in \<open>main\<close> catches the exception: when a run
  reaches the call (ELF outputs that differ, both header dumps obtained), it ends in
  \<^verbatim>\<open>binaries mismatch\<close> if the standard output of \<^verbatim>\<open>cmp\<close> contains \<^verbatim>\<open>byte N,\<close> and in
  the uncaught AttributeError if it does not.
\<close>

theorem parse_cmp_offset_requires_byte_pattern:
  "(ds \<noteq> [] \<and> list_all is_digit ds \<and> \<not> has_byte_pattern pre \<longrightarrow>
      parse_cmp_offset (pre @ ''byte '' @ ds @ '','' @ post) = Inr (int_of_digits ds)) \<and>
   (has_byte_pattern s \<longleftrightarrow> (\<exists>n. parse_cmp_offset s = Inr n)) \<and>
   (\<not> has_byte_pattern s \<longleftrightarrow> parse_cmp_offset s = Inl AttributeError) \<and>
   (\<not> logs_fatal cfg e \<and> output_path (base_args e) = Inr main_binary \<and>
    output_path (cmp_args_of e) = Inr cmp_binary \<and>
    report_real_time cfg main_binary (p_stderr (base_run e)) (p_stderr (cmp_run e)) = Inr written \<and>
    \<not> SKIP_BINARY_CMP cfg \<and> returncode (cmp_tool e main_binary cmp_binary) \<noteq> 0 \<and>
    files e main_binary = Some bytes \<and> take 4 bytes = ELF_MAGIC \<and>
    returncode (readelf_tool e main_binary) = 0 \<and> returncode (readelf_tool e cmp_binary) = 0 \<longrightarrow>
      (if has_byte_pattern (p_stdout (cmp_tool e main_binary cmp_binary))
       then snd (main cfg e) = Exit_msg ''binaries mismatch''
       else snd (main cfg e) = Uncaught AttributeError))"
proof (intro conjI impI)
  assume "ds \<noteq> [] \<and> list_all is_digit ds \<and> \<not> has_byte_pattern pre"
  then show "parse_cmp_offset (pre @ ''byte '' @ ds @ '','' @ post) = Inr (int_of_digits ds)"
    using parse_cmp_offset_first by blast
next
  show "has_byte_pattern s \<longleftrightarrow> (\<exists>n. parse_cmp_offset s = Inr n)"
    by (simp add: parse_cmp_offset_ok_iff)
next
  show "\<not> has_byte_pattern s \<longleftrightarrow> parse_cmp_offset s = Inl AttributeError"
    by (simp add: parse_cmp_offset_error_iff)
next
  assume h: "\<not> logs_fatal cfg e \<and> output_path (base_args e) = Inr main_binary \<and>
    output_path (cmp_args_of e) = Inr cmp_binary \<and>
    report_real_time cfg main_binary (p_stderr (base_run e)) (p_stderr (cmp_run e)) = Inr written \<and>
    \<not> SKIP_BINARY_CMP cfg \<and> returncode (cmp_tool e main_binary cmp_binary) \<noteq> 0 \<and>
    files e main_binary = Some bytes \<and> take 4 bytes = ELF_MAGIC \<and>
    returncode (readelf_tool e main_binary) = 0 \<and> returncode (readelf_tool e cmp_binary) = 0"
  then have run: "snd (main cfg e) =
           (case parse_cmp_offset (p_stdout (cmp_tool e main_binary cmp_binary)) of
              Inl x \<Rightarrow> Uncaught x
            | Inr mismatch_offset \<Rightarrow> Exit_msg ''binaries mismatch'')"
    by (intro elf_mismatch_run) blast+
  show "if has_byte_pattern (p_stdout (cmp_tool e main_binary cmp_binary))
       then snd (main cfg e) = Exit_msg ''binaries mismatch''
       else snd (main cfg e) = Uncaught AttributeError"
  proof (cases "has_byte_pattern (p_stdout (cmp_tool e main_binary cmp_binary))")
    case True
    then obtain n where "parse_cmp_offset (p_stdout (cmp_tool e main_binary cmp_binary)) = Inr n"
      using parse_cmp_offset_ok_iff by blast
    with True run show ?thesis by simp
  next
    case False
    then have "parse_cmp_offset (p_stdout (cmp_tool e main_binary cmp_binary)) = Inl AttributeError"
      by (simp add: parse_cmp_offset_error_iff)
    with False run show ?thesis by simp
  qed
qed

theorem parse_cmp_offset_requires_byte_pattern_witness:
  "parse_cmp_offset ''out/a.bolt /tmp/tmpx/a.bolt differ: byte 25, line 1\<newline>'' = Inr 25 \<and>
   parse_cmp_offset [] = Inl AttributeError \<and>
   snd (main sample_cfg strict_prefix_env) = Uncaught AttributeError"
proof -
  have d: "''25'' \<noteq> [] \<and> list_all is_digit ''25'' \<and>
           \<not> has_byte_pattern ''out/a.bolt /tmp/tmpx/a.bolt differ: ''"
  proof -
    have "search_byte ''out/a.bolt /tmp/tmpx/a.bolt differ: '' = None" by code_simp
    then have "\<not> has_byte_pattern ''out/a.bolt /tmp/tmpx/a.bolt differ: ''"
      using search_byte_None_iff by blast
    moreover have "list_all is_digit ''25''" by code_simp
    ultimately show ?thesis by simp
  qed
  have n: "\<not> has_byte_pattern []" by (rule has_byte_pattern_Nil)
  have out: "p_stdout (cmp_tool strict_prefix_env ''out/a.bolt'' ''/tmp/tmpx/a.bolt'') = []"
    by code_simp
  have reach: "\<not> logs_fatal sample_cfg strict_prefix_env \<and>
    output_path (base_args strict_prefix_env) = Inr ''out/a.bolt'' \<and>
    output_path (cmp_args_of strict_prefix_env) = Inr ''/tmp/tmpx/a.bolt'' \<and>
    report_real_time sample_cfg ''out/a.bolt'' (p_stderr (base_run strict_prefix_env))
      (p_stderr (cmp_run strict_prefix_env)) =
      Inr (Write_file ''timing.log'' ''out/a.bolt; 1.5; 100; 2.5; 200\<newline>'' Mode_a) \<and>
    \<not> SKIP_BINARY_CMP sample_cfg \<and>
    returncode (cmp_tool strict_prefix_env ''out/a.bolt'' ''/tmp/tmpx/a.bolt'') \<noteq> 0 \<and>
    files strict_prefix_env ''out/a.bolt'' = Some (ELF_MAGIC @ ''rest'') \<and>
    take 4 (ELF_MAGIC @ ''rest'') = ELF_MAGIC \<and>
    returncode (readelf_tool strict_prefix_env ''out/a.bolt'') = 0 \<and>
    returncode (readelf_tool strict_prefix_env ''/tmp/tmpx/a.bolt'') = 0"
    by code_simp
  have v: "int_of_digits ''25'' = 25" by code_simp
  have t: "''out/a.bolt /tmp/tmpx/a.bolt differ: '' @ ''byte '' @ ''25'' @ '','' @ '' line 1\<newline>''
           = ''out/a.bolt /tmp/tmpx/a.bolt differ: byte 25, line 1\<newline>''" by simp
  note inst = parse_cmp_offset_requires_byte_pattern [where ds = "''25''" and pre = "''out/a.bolt /tmp/tmpx/a.bolt differ: ''"
      and post = "'' line 1\<newline>''" and s = "[]" and cfg = sample_cfg and e = strict_prefix_env
      and main_binary = "''out/a.bolt''" and cmp_binary = "''/tmp/tmpx/a.bolt''"
      and written = "Write_file ''timing.log'' ''out/a.bolt; 1.5; 100; 2.5; 200\<newline>'' Mode_a"
      and bytes = "ELF_MAGIC @ ''rest''"]
  from inst d have a: "parse_cmp_offset (''out/a.bolt /tmp/tmpx/a.bolt differ: '' @ ''byte '' @ ''25'' @ '','' @ '' line 1\<newline>'') = Inr (int_of_digits ''25'')"
    by blast
  from inst n have b: "parse_cmp_offset [] = Inl AttributeError" by blast
  from inst reach have "if has_byte_pattern (p_stdout (cmp_tool strict_prefix_env ''out/a.bolt'' ''/tmp/tmpx/a.bolt''))
       then snd (main sample_cfg strict_prefix_env) = Exit_msg ''binaries mismatch''
       else snd (main sample_cfg strict_prefix_env) = Uncaught AttributeError"
    by blast
  then have c: "snd (main sample_cfg strict_prefix_env) = Uncaught AttributeError"
    unfolding out using n by simp
  from a b c show ?thesis unfolding t v by simp
qed

end
